theory Spec2Isabelle
  imports Main "HOL-Library.Word"
begin

chapter \<open>The embedding\<close>

section \<open>Python values shared by the modules\<close>

text \<open>
  A Python \<open>str\<close> is the list of its Unicode code points (\<open>len\<close> counts code points),
  a \<open>bytes\<close> object is a list of 8-bit words. Python integers are unbounded; the ones in
  this development are lengths, offsets and counts, hence \<open>nat\<close>.
  Every \<open>raise\<close> of the source is a value \<open>Inl e\<close> of the result type \<open>py_error + 'a\<close>.
\<close>

type_synonym ustr = "nat list"
type_synonym byte = "8 word"
type_synonym bytes = "byte list"

datatype py_error =
    IOError string
  | StructError
  | ValueError string
  | IndexError
  | UnicodeDecodeError
  | UnicodeEncodeError
  | TypeError string
  | AttributeError string
  | OverflowError
  | NameError string
  | KeyError string
  | ZeroDivisionError
  | InvalidOperation
  | UnknownLocaleError ustr
  | UnknownCurrencyError ustr
  | UnknownCurrencyFormatError ustr
  | UnsupportedNumberingSystemError ustr
  | NumberFormatError ustr

text \<open>An ASCII literal as a \<open>str\<close>.\<close>

definition ustr_of :: "string \<Rightarrow> ustr" where
  "ustr_of s = map of_char s"

text \<open>Sequencing of fallible steps: the first \<open>raise\<close> ends the computation.\<close>

definition and_then :: "'e + 'a \<Rightarrow> ('a \<Rightarrow> 'e + 'b) \<Rightarrow> 'e + 'b" where
  "and_then r f = (case r of Inl e \<Rightarrow> Inl e | Inr x \<Rightarrow> f x)"

fun sequence_sum :: "('e + 'a) list \<Rightarrow> 'e + 'a list" where
  "sequence_sum [] = Inr []"
| "sequence_sum (r # rs) =
     (case r of Inl e \<Rightarrow> Inl e
      | Inr x \<Rightarrow> (case sequence_sum rs of Inl e \<Rightarrow> Inl e | Inr xs \<Rightarrow> Inr (x # xs)))"

text \<open>The pyslice \<open>xs[a:b]\<close> for \<open>0 \<le> a \<le> b\<close>: it never raises and is cut at the end of \<open>xs\<close>.\<close>

definition pyslice :: "'a list \<Rightarrow> nat \<Rightarrow> nat \<Rightarrow> 'a list" where
  "pyslice xs a b = take (b - a) (drop a xs)"

text \<open>\<open>xs.split(sep)\<close> for a one-element separator: the parts between the separators.\<close>

fun split_on :: "'a \<Rightarrow> 'a list \<Rightarrow> 'a list list" where
  "split_on sep [] = [[]]"
| "split_on sep (x # xs) =
     (if x = sep then [] # split_on sep xs
      else (case split_on sep xs of [] \<Rightarrow> [[x]] | p # ps \<Rightarrow> (x # p) # ps))"

text \<open>\<open>sep.join(parts)\<close>.\<close>

fun join :: "'a list \<Rightarrow> 'a list list \<Rightarrow> 'a list" where
  "join sep [] = []"
| "join sep [p] = p"
| "join sep (p # q # ps) = p @ sep @ join sep (q # ps)"

subsection \<open>UTF-8, the codec of \<open>str.encode('utf-8')\<close> and \<open>bytes.decode()\<close>\<close>

fun utf8_encode_cp :: "nat \<Rightarrow> py_error + bytes" where
  "utf8_encode_cp c =
     (if c < 0x80 then Inr [of_nat c]
      else if c < 0x800 then Inr [of_nat (0xC0 + c div 64), of_nat (0x80 + c mod 64)]
      else if 0xD800 \<le> c \<and> c \<le> 0xDFFF then Inl UnicodeEncodeError
      else if c < 0x10000 then
        Inr [of_nat (0xE0 + c div 4096), of_nat (0x80 + (c div 64) mod 64),
             of_nat (0x80 + c mod 64)]
      else if c < 0x110000 then
        Inr [of_nat (0xF0 + c div 262144), of_nat (0x80 + (c div 4096) mod 64),
             of_nat (0x80 + (c div 64) mod 64), of_nat (0x80 + c mod 64)]
      else Inl UnicodeEncodeError)"

definition encode_utf8 :: "ustr \<Rightarrow> py_error + bytes" where
  "encode_utf8 s = and_then (sequence_sum (map utf8_encode_cp s)) (\<lambda>bs. Inr (concat bs))"

definition is_cont :: "nat \<Rightarrow> bool" where
  "is_cont b = (0x80 \<le> b \<and> b \<le> 0xBF)"

definition prepend :: "'a \<Rightarrow> 'e + 'a list \<Rightarrow> 'e + 'a list" where
  "prepend x r = (case r of Inl e \<Rightarrow> Inl e | Inr xs \<Rightarrow> Inr (x # xs))"

fun utf8_decode :: "nat list \<Rightarrow> py_error + ustr" where
  "utf8_decode [] = Inr []"
| "utf8_decode (b0 # bs) =
     (if b0 < 0x80 then prepend b0 (utf8_decode bs)
      else if 0xC2 \<le> b0 \<and> b0 \<le> 0xDF then
        (case bs of
           b1 # r \<Rightarrow>
             if is_cont b1 then prepend ((b0 - 0xC0) * 64 + (b1 - 0x80)) (utf8_decode r)
             else Inl UnicodeDecodeError
         | _ \<Rightarrow> Inl UnicodeDecodeError)
      else if 0xE0 \<le> b0 \<and> b0 \<le> 0xEF then
        (case bs of
           b1 # b2 # r \<Rightarrow>
             if (if b0 = 0xE0 then 0xA0 else 0x80) \<le> b1
                \<and> b1 \<le> (if b0 = 0xED then 0x9F else 0xBF) \<and> is_cont b2
             then prepend ((b0 - 0xE0) * 4096 + (b1 - 0x80) * 64 + (b2 - 0x80)) (utf8_decode r)
             else Inl UnicodeDecodeError
         | _ \<Rightarrow> Inl UnicodeDecodeError)
      else if 0xF0 \<le> b0 \<and> b0 \<le> 0xF4 then
        (case bs of
           b1 # b2 # b3 # r \<Rightarrow>
             if (if b0 = 0xF0 then 0x90 else 0x80) \<le> b1
                \<and> b1 \<le> (if b0 = 0xF4 then 0x8F else 0xBF) \<and> is_cont b2 \<and> is_cont b3
             then prepend ((b0 - 0xF0) * 262144 + (b1 - 0x80) * 4096 + (b2 - 0x80) * 64
                           + (b3 - 0x80)) (utf8_decode r)
             else Inl UnicodeDecodeError
         | _ \<Rightarrow> Inl UnicodeDecodeError)
      else Inl UnicodeDecodeError)"

definition decode_utf8 :: "bytes \<Rightarrow> py_error + ustr" where
  "decode_utf8 bs = utf8_decode (map unat bs)"

subsection \<open>\<open>struct\<close>: 32-bit unsigned integers in either byte order\<close>

datatype endian = Little | Big

definition le_val :: "bytes \<Rightarrow> nat" where
  "le_val bs = foldr (\<lambda>b acc. unat b + 256 * acc) bs 0"

definition be_val :: "bytes \<Rightarrow> nat" where
  "be_val bs = foldl (\<lambda>acc b. 256 * acc + unat b) 0 bs"

definition u32_val :: "endian \<Rightarrow> bytes \<Rightarrow> nat" where
  "u32_val ii bs = (case ii of Little \<Rightarrow> le_val bs | Big \<Rightarrow> be_val bs)"

text \<open>\<open>struct.unpack\<close> raises \<open>struct.error\<close> unless the buffer has exactly the size of the format.\<close>

definition unpack_I :: "endian \<Rightarrow> bytes \<Rightarrow> py_error + nat" where
  "unpack_I ii bs = (if length bs \<noteq> 4 then Inl StructError else Inr (u32_val ii bs))"

definition fields_II :: "endian \<Rightarrow> bytes \<Rightarrow> nat \<times> nat" where
  "fields_II ii bs = (u32_val ii (pyslice bs 0 4), u32_val ii (pyslice bs 4 8))"

definition unpack_II :: "endian \<Rightarrow> bytes \<Rightarrow> py_error + nat \<times> nat" where
  "unpack_II ii bs = (if length bs \<noteq> 8 then Inl StructError else Inr (fields_II ii bs))"

definition fields_4I :: "endian \<Rightarrow> bytes \<Rightarrow> nat \<times> nat \<times> nat \<times> nat" where
  "fields_4I ii bs =
     (u32_val ii (pyslice bs 0 4), u32_val ii (pyslice bs 4 8),
      u32_val ii (pyslice bs 8 12), u32_val ii (pyslice bs 12 16))"

definition unpack_4I :: "endian \<Rightarrow> bytes \<Rightarrow> py_error + nat \<times> nat \<times> nat \<times> nat" where
  "unpack_4I ii bs = (if length bs \<noteq> 16 then Inl StructError else Inr (fields_4I ii bs))"

text \<open>The four bytes of a value below \<open>2 ^ 32\<close>, least significant first.\<close>

definition le32 :: "nat \<Rightarrow> bytes" where
  "le32 v = [of_nat v, of_nat (v div 256), of_nat (v div 65536), of_nat (v div 16777216)]"

section \<open>babel.messages.mofile\<close>

subsection \<open>Messages and catalogs\<close>

text \<open>
  \<open>Message.id\<close> is a string or a (singular, plural) pair; \<open>Message.string\<close> is absent, a
  string or a sequence of plural translations; \<open>Message.context\<close> is optional.
\<close>

datatype msgid = Singular ustr | Plural ustr ustr

datatype msgstr = NoString | Single ustr | Multi "ustr list"

record message =
  msg_id :: msgid
  msg_string :: msgstr
  msg_context :: "ustr option"
  msg_flags :: "ustr list"

text \<open>
  Modelled from the spec: the classes \<open>Message\<close> and \<open>Catalog\<close> of babel.messages.catalog
  are not part of the sources at hand. A catalog is an ordered mapping keyed by the identity
  \<open>(context, id)\<close> of a message, together with catalog-level metadata, among them the MIME
  headers. It is represented by its messages in order. \<open>Catalog.add\<close> files a message under
  its key: in place of the message that is there under this key, at the end when there is
  none. The entry with the empty id is the header block, whose translation carries the MIME
  headers; it is metadata of the catalog, which this model does not keep, and no message.
  A message is fuzzy when its flags contain \<open>fuzzy\<close>.
\<close>

type_synonym catalog = "message list"

definition same_key :: "message \<Rightarrow> message \<Rightarrow> bool" where
  "same_key a b = (msg_context a = msg_context b \<and> msg_id a = msg_id b)"

fun catalog_store :: "message \<Rightarrow> catalog \<Rightarrow> catalog" where
  "catalog_store m [] = [m]"
| "catalog_store m (x # xs) = (if same_key m x then m # xs else x # catalog_store m xs)"

definition catalog_add :: "catalog \<Rightarrow> msgid \<Rightarrow> msgstr \<Rightarrow> catalog" where
  "catalog_add catalog i s =
     (if i = Singular [] then catalog
      else catalog_store \<lparr>msg_id = i, msg_string = s, msg_context = None, msg_flags = []\<rparr> catalog)"

definition fuzzy :: "message \<Rightarrow> bool" where
  "fuzzy m = (ustr_of ''fuzzy'' \<in> set (msg_flags m))"

text \<open>Python truth values: \<open>not message.id\<close>, \<open>not message.string\<close>, \<open>message.context\<close>.\<close>

definition id_falsy :: "msgid \<Rightarrow> bool" where
  "id_falsy i = (case i of Singular s \<Rightarrow> s = [] | Plural s p \<Rightarrow> False)"

definition string_falsy :: "msgstr \<Rightarrow> bool" where
  "string_falsy s = (case s of NoString \<Rightarrow> True | Single t \<Rightarrow> t = [] | Multi ts \<Rightarrow> ts = [])"

subsection \<open>\<open>read_mo\<close>\<close>

definition LE_MAGIC :: nat where
  "LE_MAGIC = 2500072158"

definition BE_MAGIC :: nat where
  "BE_MAGIC = 3725722773"

text \<open>
  The body of the loop over the index tables up to the call of \<open>catalog.add\<close>: the two index
  entries are unpacked, the bounds are checked, the blobs are cut out, split at NUL and decoded.
  \<open>msgid1, msgid2 = msg.split(b'\x00')\<close> raises \<open>ValueError\<close> unless there are exactly two parts.
\<close>

definition read_entry :: "endian \<Rightarrow> bytes \<Rightarrow> nat \<Rightarrow> nat \<Rightarrow> py_error + msgid \<times> msgstr" where
  "read_entry ii buf masteridx transidx =
     and_then (unpack_II ii (pyslice buf masteridx (masteridx + 8))) (\<lambda>(mlen, moff).
       let mend = moff + mlen in
       and_then (unpack_II ii (pyslice buf transidx (transidx + 8))) (\<lambda>(tlen, toff).
         let tend = toff + tlen in
         if mend > length buf \<or> tend > length buf then Inl (IOError ''File is corrupt'')
         else
           let msg = pyslice buf moff mend; tmsg = pyslice buf toff tend in
           if 0 \<in> set msg then
             (case split_on 0 msg of
                [msgid1, msgid2] \<Rightarrow>
                  let tmsgs = split_on 0 tmsg in
                  if length tmsgs > 1 then
                    and_then (decode_utf8 msgid1) (\<lambda>i1.
                    and_then (decode_utf8 msgid2) (\<lambda>i2.
                    and_then (sequence_sum (map decode_utf8 tmsgs)) (\<lambda>ts.
                      Inr (Plural i1 i2, Multi ts))))
                  else
                    and_then (decode_utf8 msgid1) (\<lambda>i1.
                    and_then (decode_utf8 msgid2) (\<lambda>i2.
                    and_then (case tmsgs of [] \<Rightarrow> Inl IndexError | t # _ \<Rightarrow> decode_utf8 t) (\<lambda>t.
                      Inr (Plural i1 i2, Single t))))
              | _ \<Rightarrow> Inl (ValueError ''too many values to unpack (expected 2)''))
           else
             and_then (decode_utf8 msg) (\<lambda>i.
             and_then (decode_utf8 tmsg) (\<lambda>t.
               Inr (Singular i, Single t)))))"

text \<open>\<open>for i in range(msgcount)\<close>, with the two running table positions and the catalog.\<close>

fun read_entries ::
  "endian \<Rightarrow> bytes \<Rightarrow> nat \<Rightarrow> nat \<Rightarrow> nat \<Rightarrow> catalog \<Rightarrow> py_error + catalog" where
  "read_entries ii buf 0 masteridx transidx catalog = Inr catalog"
| "read_entries ii buf (Suc n) masteridx transidx catalog =
     and_then (read_entry ii buf masteridx transidx) (\<lambda>(i, s).
       read_entries ii buf n (masteridx + 8) (transidx + 8) (catalog_add catalog i s))"

definition read_mo :: "bytes \<Rightarrow> py_error + catalog" where
  "read_mo buf =
     and_then (unpack_I Little (pyslice buf 0 4)) (\<lambda>magic.
     and_then
       (if magic = LE_MAGIC then
          and_then (unpack_4I Little (pyslice buf 4 20)) (\<lambda>h. Inr (h, Little))
        else if magic = BE_MAGIC then
          and_then (unpack_4I Big (pyslice buf 4 20)) (\<lambda>h. Inr (h, Big))
        else Inl (IOError ''Invalid magic number''))
       (\<lambda>((version, msgcount, masteridx, transidx), ii).
          if version \<noteq> 0 \<and> version \<noteq> 1 then Inl (IOError ''Unknown MO file version'')
          else read_entries ii buf msgcount masteridx transidx []))"

subsection \<open>\<open>write_mo\<close>\<close>

text \<open>
  \<open>messages.sort()\<close> is a stable sort by the ordering of \<open>Message\<close>, which is defined in
  babel.messages.catalog; the strict ordering is the parameter \<open>lt\<close>.
\<close>

fun insort_msg :: "(message \<Rightarrow> message \<Rightarrow> bool) \<Rightarrow> message \<Rightarrow> message list \<Rightarrow> message list" where
  "insort_msg lt x [] = [x]"
| "insort_msg lt x (y # ys) = (if lt y x then y # insort_msg lt x ys else x # y # ys)"

definition sort_messages :: "(message \<Rightarrow> message \<Rightarrow> bool) \<Rightarrow> message list \<Rightarrow> message list" where
  "sort_messages lt ms = foldr (insort_msg lt) ms []"

text \<open>
  \<open>(message.context + '\x04' + message.id if message.context else message.id).encode('utf-8')\<close>:
  a pair as id cannot be concatenated to a string and has no method \<open>encode\<close>.
\<close>

definition mo_id :: "message \<Rightarrow> py_error + bytes" where
  "mo_id m =
     (if (case msg_context m of None \<Rightarrow> False | Some c \<Rightarrow> c \<noteq> []) then
        (case msg_id m of
           Singular s \<Rightarrow> encode_utf8 (the (msg_context m) @ [4] @ s)
         | Plural s p \<Rightarrow> Inl (TypeError ''can only concatenate str (not tuple) to str''))
      else
        (case msg_id m of
           Singular s \<Rightarrow> encode_utf8 s
         | Plural s p \<Rightarrow> Inl (AttributeError ''tuple object has no attribute encode'')))"

text \<open>
  \<open>message.string.encode('utf-8') if isinstance(message.string, str)
  else b'\x00'.join(s.encode('utf-8') for s in message.string)\<close>
\<close>

definition mo_string :: "message \<Rightarrow> py_error + bytes" where
  "mo_string m =
     (case msg_string m of
        Single t \<Rightarrow> encode_utf8 t
      | Multi ts \<Rightarrow> and_then (sequence_sum (map encode_utf8 ts)) (\<lambda>bs. Inr (join [0] bs))
      | NoString \<Rightarrow> Inl (TypeError ''NoneType object is not iterable''))"

text \<open>The loop over the sorted messages, with the accumulators \<open>ids\<close>, \<open>strs\<close> and \<open>offsets\<close>.\<close>

fun mo_collect ::
  "bool \<Rightarrow> message list \<Rightarrow> bytes \<Rightarrow> bytes \<Rightarrow> (nat \<times> nat \<times> nat \<times> nat) list
   \<Rightarrow> py_error + bytes \<times> bytes \<times> (nat \<times> nat \<times> nat \<times> nat) list" where
  "mo_collect use_fuzzy [] ids strs offsets = Inr (ids, strs, offsets)"
| "mo_collect use_fuzzy (m # ms) ids strs offsets =
     (if id_falsy (msg_id m) \<or> (\<not> use_fuzzy \<and> fuzzy m) \<or> string_falsy (msg_string m)
      then mo_collect use_fuzzy ms ids strs offsets
      else
        and_then (mo_id m) (\<lambda>i.
        and_then (mo_string m) (\<lambda>s.
          mo_collect use_fuzzy ms (ids @ i @ [0]) (strs @ s @ [0])
            (offsets @ [(length ids, length i, length strs, length s)]))))"

text \<open>
  \<open>struct.pack('Iiiiiii', ...)\<close> in the byte order of a little-endian host: the first field
  is unsigned, the others are signed, and a value out of range raises \<open>struct.error\<close>;
  \<open>array.array("I", offsets)\<close> raises \<open>OverflowError\<close> for an item of more than 32 bits.
\<close>

definition pack_Iiiiiii :: "nat list \<Rightarrow> py_error + bytes" where
  "pack_Iiiiiii vs =
     (case vs of
        [] \<Rightarrow> Inl StructError
      | v # ws \<Rightarrow>
          if length ws \<noteq> 6 \<or> \<not> v < 2 ^ 32 \<or> \<not> list_all (\<lambda>w. w < 2 ^ 31) ws then Inl StructError
          else Inr (concat (map le32 vs)))"

definition array_I_tobytes :: "nat list \<Rightarrow> py_error + bytes" where
  "array_I_tobytes vs =
     (if \<not> list_all (\<lambda>v. v < 2 ^ 32) vs then Inl OverflowError
      else Inr (concat (map le32 vs)))"

text \<open>The result is the byte string handed to \<open>fileobj.write\<close>.\<close>

definition write_mo :: "(message \<Rightarrow> message \<Rightarrow> bool) \<Rightarrow> catalog \<Rightarrow> bool \<Rightarrow> py_error + bytes" where
  "write_mo lt catalog use_fuzzy =
     and_then (mo_collect use_fuzzy (sort_messages lt catalog) [] [] []) (\<lambda>(ids, strs, offsets).
       let keystart = 7 * 4 + 16 * length offsets;
           valuestart = keystart + length ids;
           koffsets = concat (map (\<lambda>(o0, o1, o2, o3). [o0 + keystart, o1]) offsets);
           voffsets = concat (map (\<lambda>(o0, o1, o2, o3). [o2 + valuestart, o3]) offsets);
           offsets2 = koffsets @ voffsets
       in
         and_then (pack_Iiiiiii [LE_MAGIC, 0, length offsets2 div 4, 7 * 4,
                                 7 * 4 + length offsets2 div 2, 0, 0]) (\<lambda>header.
         and_then (array_I_tobytes offsets2) (\<lambda>table.
           Inr (header @ table @ ids @ strs))))"

subsection \<open>What \<open>read_mo\<close> reads from a buffer\<close>

text \<open>
  The fields of a buffer as \<open>read_mo\<close> reads them: the magic number (always read as
  little-endian), the byte order it selects, the header fields \<open>version\<close>, \<open>msgcount\<close>,
  \<open>masteridx\<close> and \<open>transidx\<close>, and the pair of an index-table slot, which the reader
  takes as (length, offset).
\<close>

definition mo_magic :: "bytes \<Rightarrow> nat" where
  "mo_magic buf = u32_val Little (pyslice buf 0 4)"

definition mo_endian :: "bytes \<Rightarrow> endian" where
  "mo_endian buf = (if mo_magic buf = LE_MAGIC then Little else Big)"

definition mo_version :: "bytes \<Rightarrow> nat" where
  "mo_version buf = fst (fields_4I (mo_endian buf) (pyslice buf 4 20))"

definition mo_msgcount :: "bytes \<Rightarrow> nat" where
  "mo_msgcount buf = fst (snd (fields_4I (mo_endian buf) (pyslice buf 4 20)))"

definition mo_masteridx :: "bytes \<Rightarrow> nat" where
  "mo_masteridx buf = fst (snd (snd (fields_4I (mo_endian buf) (pyslice buf 4 20))))"

definition mo_transidx :: "bytes \<Rightarrow> nat" where
  "mo_transidx buf = snd (snd (snd (fields_4I (mo_endian buf) (pyslice buf 4 20))))"

definition mo_slot :: "bytes \<Rightarrow> nat \<Rightarrow> nat \<times> nat" where
  "mo_slot buf idx = fields_II (mo_endian buf) (pyslice buf idx (idx + 8))"

text \<open>The end \<open>offset + length\<close> of the blob that the slot at \<open>idx\<close> describes.\<close>

definition mo_blob_end :: "bytes \<Rightarrow> nat \<Rightarrow> nat" where
  "mo_blob_end buf idx = snd (mo_slot buf idx) + fst (mo_slot buf idx)"

text \<open>The loop body succeeds on the \<open>j\<close>-th pair of index slots of a buffer.\<close>

definition succeeds :: "'e + 'a \<Rightarrow> bool" where
  "succeeds r = (case r of Inl e \<Rightarrow> False | Inr x \<Rightarrow> True)"

definition mo_entry_ok :: "bytes \<Rightarrow> nat \<Rightarrow> bool" where
  "mo_entry_ok buf j =
     succeeds (read_entry (mo_endian buf) buf (mo_masteridx buf + 8 * j) (mo_transidx buf + 8 * j))"

subsection \<open>Concrete catalogs and buffers\<close>

text \<open>The messages \<open>catalog.add('foo', 'Voh')\<close> and \<open>catalog.add(('bar', 'baz'), ('Bahr', 'Batz'))\<close>.\<close>

definition foo_message :: message where
  "foo_message =
     \<lparr>msg_id = Singular (ustr_of ''foo''), msg_string = Single (ustr_of ''Voh''),
      msg_context = None, msg_flags = []\<rparr>"

definition bar_baz_message :: message where
  "bar_baz_message =
     \<lparr>msg_id = Plural (ustr_of ''bar'') (ustr_of ''baz''),
      msg_string = Multi [ustr_of ''Bahr'', ustr_of ''Batz''],
      msg_context = None, msg_flags = []\<rparr>"

text \<open>
  The 52 bytes that \<open>write_mo\<close> produces for the catalog of \<open>foo_message\<close> alone: the header
  (magic, version 0, one entry, key index at 28, value index at 30, no hash table), the table
  44, 3, 48, 3, and the blobs \<open>foo\<close> and \<open>Voh\<close>, each followed by NUL.
\<close>

definition foo_written :: bytes where
  "foo_written =
     [0xDE, 0x12, 0x04, 0x95,  0, 0, 0, 0,  1, 0, 0, 0,  28, 0, 0, 0,  30, 0, 0, 0,
      0, 0, 0, 0,  0, 0, 0, 0,
      44, 0, 0, 0,  3, 0, 0, 0,  48, 0, 0, 0,  3, 0, 0, 0,
      102, 111, 111, 0,  86, 111, 104, 0]"

text \<open>
  The MO file of the same catalog as the format lays it out: value index at 36, and each
  index entry the pair (length, offset).
\<close>

definition foo_mo_file :: bytes where
  "foo_mo_file =
     [0xDE, 0x12, 0x04, 0x95,  0, 0, 0, 0,  1, 0, 0, 0,  28, 0, 0, 0,  36, 0, 0, 0,
      0, 0, 0, 0,  0, 0, 0, 0,
      3, 0, 0, 0,  44, 0, 0, 0,  3, 0, 0, 0,  48, 0, 0, 0,
      102, 111, 111, 0,  86, 111, 104, 0]"

text \<open>Four zero bytes: no known magic number.\<close>

definition bad_magic_buffer :: bytes where
  "bad_magic_buffer = [0, 0, 0, 0]"

text \<open>A complete little-endian header with version 2 and no entries.\<close>

definition bad_version_buffer :: bytes where
  "bad_version_buffer =
     [0xDE, 0x12, 0x04, 0x95,  2, 0, 0, 0,  0, 0, 0, 0,  28, 0, 0, 0,  28, 0, 0, 0]"

text \<open>
  A truncated file of 28 bytes: a little-endian header (version 0, one entry, key index at 20,
  value index at 28) and the key index entry (length 100, offset 0); the value index is
  missing.
\<close>

definition truncated_buffer :: bytes where
  "truncated_buffer =
     [0xDE, 0x12, 0x04, 0x95,  0, 0, 0, 0,  1, 0, 0, 0,  20, 0, 0, 0,  28, 0, 0, 0,
      100, 0, 0, 0,  0, 0, 0, 0]"

section \<open>babel.messages.pofile\<close>

subsection \<open>Methods of \<open>str\<close>\<close>

text \<open>
  \<open>s.replace(old, new)\<close>: every occurrence of \<open>old\<close>, found from left to right without
  overlap, becomes \<open>new\<close>; for an empty \<open>old\<close>, \<open>new\<close> is put before every element and at
  the end.
\<close>

fun intersperse_all :: "'a list \<Rightarrow> 'a list \<Rightarrow> 'a list" where
  "intersperse_all new [] = new"
| "intersperse_all new (x # xs) = new @ x # intersperse_all new xs"

function replace_from :: "'a list \<Rightarrow> 'a list \<Rightarrow> 'a list \<Rightarrow> 'a list" where
  "replace_from old new [] = []"
| "replace_from old new (x # xs) =
     (if old \<noteq> [] \<and> take (length old) (x # xs) = old
      then new @ replace_from old new (drop (length old) (x # xs))
      else x # replace_from old new xs)"
  by pat_completeness auto
termination
  by (relation "measure (\<lambda>(old, new, s). length s)") (auto simp: neq_Nil_conv)

definition replace :: "'a list \<Rightarrow> 'a list \<Rightarrow> 'a list \<Rightarrow> 'a list" where
  "replace s old new = (if old = [] then intersperse_all new s else replace_from old new s)"

text \<open>
  \<open>s.splitlines(True)\<close>: the lines with their line ends; a line ends after a line feed, a
  vertical tab, a form feed, a carriage return (with a directly following line feed), a file,
  group or record separator, NEL, or a Unicode line or paragraph separator.
\<close>

definition is_linebreak :: "nat \<Rightarrow> bool" where
  "is_linebreak c = (c \<in> set [0x0A, 0x0B, 0x0C, 0x0D, 0x1C, 0x1D, 0x1E, 0x85, 0x2028, 0x2029])"

fun splitlines_from :: "ustr \<Rightarrow> ustr \<Rightarrow> ustr list" where
  "splitlines_from line [] = (if line = [] then [] else [line])"
| "splitlines_from line (c # cs) =
     (if c = 0x0D then
        (case cs of
           [] \<Rightarrow> [line @ [c]]
         | d # ds \<Rightarrow>
             if d = 0x0A then (line @ [c, d]) # splitlines_from [] ds
             else (line @ [c]) # splitlines_from [] cs)
      else if is_linebreak c then (line @ [c]) # splitlines_from [] cs
      else splitlines_from (line @ [c]) cs)"

definition splitlines_keepends :: "ustr \<Rightarrow> ustr list" where
  "splitlines_keepends s = splitlines_from [] s"

text \<open>\<open>s.split()\<close>: the maximal runs of characters that are not white space.\<close>

definition is_space :: "nat \<Rightarrow> bool" where
  "is_space c =
     ((0x09 \<le> c \<and> c \<le> 0x0D) \<or> (0x1C \<le> c \<and> c \<le> 0x20) \<or> c = 0x85 \<or> c = 0xA0
      \<or> c = 0x1680 \<or> (0x2000 \<le> c \<and> c \<le> 0x200A) \<or> c = 0x2028 \<or> c = 0x2029
      \<or> c = 0x202F \<or> c = 0x205F \<or> c = 0x3000)"

fun split_from :: "ustr \<Rightarrow> ustr \<Rightarrow> ustr list" where
  "split_from word [] = (if word = [] then [] else [word])"
| "split_from word (c # cs) =
     (if is_space c then (if word = [] then split_from [] cs else word # split_from [] cs)
      else split_from (word @ [c]) cs)"

definition split_whitespace :: "ustr \<Rightarrow> ustr list" where
  "split_whitespace s = split_from [] s"

text \<open>\<open>s.strip()\<close>: without the white space at both ends.\<close>

definition strip :: "ustr \<Rightarrow> ustr" where
  "strip s = rev (dropWhile is_space (rev (dropWhile is_space s)))"

subsection \<open>\<open>escape\<close> and \<open>unescape\<close>\<close>

definition escape :: "ustr \<Rightarrow> ustr" where
  "escape string =
     ustr_of [CHR 0x22]
     @ replace (replace (replace (replace (replace string
         (ustr_of [CHR 0x5C]) (ustr_of [CHR 0x5C, CHR 0x5C]))
         [0x09] (ustr_of [CHR 0x5C, CHR ''t'']))
         [0x0D] (ustr_of [CHR 0x5C, CHR ''r'']))
         [0x0A] (ustr_of [CHR 0x5C, CHR ''n'']))
         (ustr_of [CHR 0x22]) (ustr_of [CHR 0x5C, CHR 0x22])
     @ ustr_of [CHR 0x22]"

text \<open>The slices \<open>s[1:-1]\<close> and \<open>s[3:-1]\<close>.\<close>

definition strip_ends :: "nat \<Rightarrow> 'a list \<Rightarrow> 'a list" where
  "strip_ends n s = butlast (drop n s)"

definition unescape :: "ustr \<Rightarrow> ustr" where
  "unescape string =
     replace (replace (strip_ends 1 string)
       (ustr_of [CHR 0x5C, CHR 0x5C]) (ustr_of [CHR 0x5C]))
       (ustr_of [CHR 0x5C, CHR 0x22]) (ustr_of [CHR 0x22])"

subsection \<open>\<open>denormalize\<close> and \<open>normalize\<close>\<close>

definition denormalize :: "ustr \<Rightarrow> ustr" where
  "denormalize string =
     (let string1 = (if take 2 string = ustr_of [CHR 0x22, CHR 0x22] then strip_ends 3 string
                     else string)
      in unescape (replace string1 [0x22, 0x0A, 0x22] []))"

text \<open>
  The inner loop of \<open>normalize\<close> over the chunks of a line that is too long, with the
  collected \<open>chunks\<close> and the list \<open>lines\<close>, followed by the final \<open>if chunks\<close>.
\<close>

fun wrap_chunks :: "ustr \<Rightarrow> nat \<Rightarrow> ustr list \<Rightarrow> ustr list \<Rightarrow> ustr list \<Rightarrow> ustr list" where
  "wrap_chunks prefix width [] chunks lines =
     (if chunks \<noteq> [] then lines @ [prefix @ join [0x20] chunks] else lines)"
| "wrap_chunks prefix width (chunk # rest) chunks lines =
     (if chunks \<noteq> [] \<and> length (prefix @ join [0x20] (chunks @ [chunk])) > width
      then wrap_chunks prefix width rest [chunk] (lines @ [prefix @ join [0x20] chunks])
      else wrap_chunks prefix width rest (chunks @ [chunk]) lines)"

text \<open>The outer loop over the lines of the string.\<close>

fun wrap_lines :: "ustr \<Rightarrow> nat \<Rightarrow> ustr list \<Rightarrow> ustr list \<Rightarrow> ustr list" where
  "wrap_lines prefix width [] lines = lines"
| "wrap_lines prefix width (line # rest) lines =
     (if length (prefix @ line) > width
      then wrap_lines prefix width rest (wrap_chunks prefix width (split_whitespace line) [] lines)
      else wrap_lines prefix width rest (lines @ [prefix @ line]))"

text \<open>
  \<open>normalize(string, prefix, width)\<close>; \<open>width\<close> is an integer or \<open>None\<close>, and wrapping
  takes place for a positive width only.
\<close>

definition normalize :: "ustr \<Rightarrow> ustr \<Rightarrow> int option \<Rightarrow> ustr" where
  "normalize string prefix width =
     (let string1 =
            (case width of
               None \<Rightarrow> string
             | Some w \<Rightarrow>
                 if w > 0 then concat (wrap_lines prefix (nat w) (splitlines_keepends string) [])
                 else string)
      in ustr_of [CHR 0x22, CHR 0x22]
         @ concat (map (\<lambda>line. [0x0A, 0x22] @ strip_ends 1 (escape line) @ [0x22])
                     (splitlines_keepends string1)))"

section \<open>The module \<open>decimal\<close> of the standard library\<close>

text \<open>
  A finite \<open>decimal.Decimal\<close> is a sign, a coefficient and an exponent; its value is
  \<open>(-1) ^ sign * coefficient * 10 ^ exponent\<close>. Arithmetic runs in the default context:
  precision 28, rounding \<open>ROUND_HALF_EVEN\<close>, with \<open>InvalidOperation\<close> trapped. The special
  values (infinities and NaNs) and the limits of the exponent (\<open>Emax = 999999\<close>) are outside
  this model, as are values that are converted from them.
\<close>

datatype decimal = Decimal (dec_sign: bool) (dec_coeff: nat) (dec_exp: int)

text \<open>\<open>str(n)\<close> for a natural number, and its length.\<close>

function digits_of :: "nat \<Rightarrow> ustr" where
  "digits_of n = (if n < 10 then [48 + n] else digits_of (n div 10) @ [48 + n mod 10])"
  by pat_completeness auto
termination
  by (relation "measure id") auto

declare digits_of.simps [simp del]

definition ndigits :: "nat \<Rightarrow> nat" where
  "ndigits n = length (digits_of n)"

text \<open>The quotient \<open>c / 10 ^ k\<close>, rounded to the nearest integer, ties to the even one.\<close>

definition round_half_even :: "nat \<Rightarrow> nat \<Rightarrow> nat" where
  "round_half_even c k =
     (let d = 10 ^ k; q = c div d; r = c mod d
      in if 2 * r > d \<or> (2 * r = d \<and> odd q) then q + 1 else q)"

text \<open>The rounding of a result to the precision of the context.\<close>

definition dec_fix :: "decimal \<Rightarrow> decimal" where
  "dec_fix x =
     (if ndigits (dec_coeff x) \<le> 28 then x
      else
        let k = ndigits (dec_coeff x) - 28; c = round_half_even (dec_coeff x) k
        in if ndigits c > 28 then Decimal (dec_sign x) (c div 10) (dec_exp x + int k + 1)
           else Decimal (dec_sign x) c (dec_exp x + int k))"

definition dec_of_int :: "int \<Rightarrow> decimal" where
  "dec_of_int i = Decimal (i < 0) (nat \<bar>i\<bar>) 0"

text \<open>\<open>x * y\<close>, \<open>abs(x)\<close>, \<open>x < 0\<close>, \<open>x != 0\<close> and \<open>x >= i\<close> for an integer \<open>i\<close>.\<close>

definition dec_mul :: "decimal \<Rightarrow> decimal \<Rightarrow> decimal" where
  "dec_mul x y =
     dec_fix (Decimal (dec_sign x \<noteq> dec_sign y) (dec_coeff x * dec_coeff y) (dec_exp x + dec_exp y))"

definition dec_abs :: "decimal \<Rightarrow> decimal" where
  "dec_abs x = dec_fix (Decimal False (dec_coeff x) (dec_exp x))"

definition dec_negative :: "decimal \<Rightarrow> bool" where
  "dec_negative x = (dec_sign x \<and> dec_coeff x \<noteq> 0)"

definition dec_nonzero :: "decimal \<Rightarrow> bool" where
  "dec_nonzero x = (dec_coeff x \<noteq> 0)"

definition dec_ge_int :: "decimal \<Rightarrow> int \<Rightarrow> bool" where
  "dec_ge_int x i =
     (let s = (if dec_sign x then - int (dec_coeff x) else int (dec_coeff x))
      in if dec_exp x \<ge> 0 then s * 10 ^ nat (dec_exp x) \<ge> i
         else s \<ge> i * 10 ^ nat (- dec_exp x))"

text \<open>The value with the exponent \<open>e\<close>, rounded half-even where digits are dropped.\<close>

definition rescale :: "decimal \<Rightarrow> int \<Rightarrow> decimal" where
  "rescale x e =
     (if dec_coeff x = 0 then Decimal (dec_sign x) 0 e
      else if dec_exp x \<ge> e then
        Decimal (dec_sign x) (dec_coeff x * 10 ^ nat (dec_exp x - e)) e
      else Decimal (dec_sign x) (round_half_even (dec_coeff x) (nat (e - dec_exp x))) e)"

text \<open>
  \<open>x.quantize(q)\<close>: the value of \<open>x\<close> with the exponent of the quantum \<open>q\<close>;
  \<open>InvalidOperation\<close> is raised when the result would have more digits than the precision
  of the context.
\<close>

definition quantize :: "decimal \<Rightarrow> decimal \<Rightarrow> py_error + decimal" where
  "quantize x q =
     (if dec_coeff x = 0 then Inr (Decimal (dec_sign x) 0 (dec_exp q))
      else if dec_exp x + int (ndigits (dec_coeff x)) - dec_exp q > 28 then Inl InvalidOperation
      else if ndigits (dec_coeff (rescale x (dec_exp q))) > 28 then Inl InvalidOperation
      else Inr (rescale x (dec_exp q)))"

text \<open>
  \<open>x / y\<close>: division by zero raises (\<open>DivisionByZero\<close>, or \<open>InvalidOperation\<close> for \<open>0 / 0\<close>);
  otherwise the quotient is computed with one digit more than the precision, marked as
  inexact in its last digit, and rounded; an exact quotient is brought as close to the ideal
  exponent as its trailing zeros allow.
\<close>

fun strip_zeros :: "nat \<Rightarrow> nat \<Rightarrow> int \<Rightarrow> int \<Rightarrow> nat \<times> int" where
  "strip_zeros 0 coeff e ideal = (coeff, e)"
| "strip_zeros (Suc fuel) coeff e ideal =
     (if e < ideal \<and> coeff mod 10 = 0 then strip_zeros fuel (coeff div 10) (e + 1) ideal
      else (coeff, e))"

definition dec_div :: "decimal \<Rightarrow> decimal \<Rightarrow> py_error + decimal" where
  "dec_div x y =
     (let sign = (dec_sign x \<noteq> dec_sign y) in
      if dec_coeff y = 0 then
        (if dec_coeff x = 0 then Inl InvalidOperation else Inl ZeroDivisionError)
      else if dec_coeff x = 0 then Inr (dec_fix (Decimal sign 0 (dec_exp x - dec_exp y)))
      else
        let shift = int (ndigits (dec_coeff y)) - int (ndigits (dec_coeff x)) + 28 + 1;
            e = dec_exp x - dec_exp y - shift;
            num = (if shift \<ge> 0 then dec_coeff x * 10 ^ nat shift else dec_coeff x);
            den = (if shift \<ge> 0 then dec_coeff y else dec_coeff y * 10 ^ nat (- shift));
            q = num div den;
            r = num mod den
        in if r \<noteq> 0 then Inr (dec_fix (Decimal sign (if q mod 5 = 0 then q + 1 else q) e))
           else
             (case strip_zeros (nat (dec_exp x - dec_exp y - e)) q e (dec_exp x - dec_exp y) of
                (q1, e1) \<Rightarrow> Inr (dec_fix (Decimal sign q1 e1))))"

text \<open>
  \<open>format(x, '.nf')\<close>: the value is rescaled to \<open>n\<close> fractional digits; the integer digits
  are followed by a point and the \<open>n\<close> fractional digits when \<open>n\<close> is positive.
\<close>

definition pad_digits :: "nat \<Rightarrow> nat \<Rightarrow> ustr" where
  "pad_digits n m = (if n = 0 then [] else replicate (n - ndigits m) 48 @ digits_of m)"

definition format_f :: "decimal \<Rightarrow> nat \<Rightarrow> ustr" where
  "format_f x n =
     (let r = rescale x (- int n)
      in (if dec_sign r then [0x2D] else [])
         @ digits_of (dec_coeff r div 10 ^ n)
         @ (if n = 0 then [] else [0x2E] @ pad_digits n (dec_coeff r mod 10 ^ n)))"

section \<open>babel.numbers: \<open>NumberPattern\<close>\<close>

subsection \<open>\<open>NumberPattern._format_int_part\<close>\<close>

text \<open>
  The loop \<open>for i, digit in enumerate(reversed(value))\<close> with the accumulator \<open>result\<close>:
  \<open>format_int_loop\<close> takes the reversed digits that are still to come and the index \<open>i\<close>
  of the first of them. The test \<open>i != 0 and i % grouping[0] == 0\<close> raises
  \<open>ZeroDivisionError\<close> for a first group size of 0 once \<open>i\<close> is positive. The second
  component of \<open>grouping\<close> is not read.
\<close>

fun format_int_loop :: "ustr \<Rightarrow> nat \<Rightarrow> nat \<times> nat \<Rightarrow> ustr \<Rightarrow> ustr \<Rightarrow> py_error + ustr" where
  "format_int_loop [] i grouping group_symbol result = Inr result"
| "format_int_loop (digit # rest) i grouping group_symbol result =
     (if i \<noteq> 0 \<and> fst grouping = 0 then Inl ZeroDivisionError
      else if i \<noteq> 0 \<and> i mod fst grouping = 0
      then format_int_loop rest (i + 1) grouping group_symbol (digit # group_symbol @ result)
      else format_int_loop rest (i + 1) grouping group_symbol (digit # result))"

definition format_int_part :: "ustr \<Rightarrow> nat \<times> nat \<Rightarrow> ustr \<Rightarrow> py_error + ustr" where
  "format_int_part val grouping group_symbol =
     format_int_loop (rev val) 0 grouping group_symbol []"

subsection \<open>The class \<open>NumberPattern\<close>\<close>

text \<open>
  The attributes that \<open>__init__\<close> stores. \<open>frac_prec\<close> is \<open>None\<close> for a pattern without a
  fraction part, as \<open>parse_pattern\<close> leaves it; \<open>scale\<close> is computed by \<open>compute_scale\<close>.
\<close>

record NumberPattern =
  pattern :: ustr
  prefix :: "ustr \<times> ustr"
  suffix :: "ustr \<times> ustr"
  number_pattern :: "ustr option"
  grouping :: "nat \<times> nat"
  int_prec :: "nat \<times> nat"
  frac_prec :: "(nat \<times> nat) option"
  exp_prec :: "nat option"
  exp_plus :: "bool option"
  scale :: nat

text \<open>\<open>needle in string\<close> for two strings.\<close>

definition is_substring :: "'a list \<Rightarrow> 'a list \<Rightarrow> bool" where
  "is_substring needle string =
     list_ex (\<lambda>i. take (length needle) (drop i string) = needle) [0..<Suc (length string)]"

text \<open>
  \<open>compute_scale\<close> looks for the percent sign (U+0025) and then for the per mille sign
  (U+2030) in \<open>''.join(self.prefix + self.suffix)\<close>.
\<close>

definition compute_scale :: "ustr \<times> ustr \<Rightarrow> ustr \<times> ustr \<Rightarrow> nat" where
  "compute_scale pre suf =
     (if is_substring [0x25] (concat [fst pre, snd pre, fst suf, snd suf]) then 2
      else if is_substring [0x2030] (concat [fst pre, snd pre, fst suf, snd suf]) then 3
      else 0)"

definition NumberPattern_init ::
  "ustr \<Rightarrow> ustr \<times> ustr \<Rightarrow> ustr \<times> ustr \<Rightarrow> nat \<times> nat \<Rightarrow> nat \<times> nat \<Rightarrow> (nat \<times> nat) option
   \<Rightarrow> nat option \<Rightarrow> bool option \<Rightarrow> ustr option \<Rightarrow> NumberPattern" where
  "NumberPattern_init pat pre suf grp int_p frac_p exp_p exp_pl number_pat =
     \<lparr>pattern = pat, prefix = pre, suffix = suf, number_pattern = number_pat, grouping = grp,
      int_prec = int_p, frac_prec = frac_p, exp_prec = exp_p, exp_plus = exp_pl,
      scale = compute_scale pre suf\<rparr>"

section \<open>babel.numbers: locale data and currencies\<close>

text \<open>
  The class \<open>Locale\<close> and the function \<open>get_global\<close> belong to babel.core and are not part
  of the sources at hand; what the functions of babel.numbers read from them is a parameter.
  A locale object is the record of the attributes that are read: the territory (which may be
  \<open>None\<close>), the default numbering system, the symbols of each numbering system, the compiled
  patterns of the decimal, currency and compact decimal formats, the names of the
  currencies for each plural category, and the plural rule.
\<close>

record babel_locale =
  territory :: "ustr option"
  default_numbering_system :: ustr
  number_symbols :: "(ustr \<times> (ustr \<times> ustr) list) list"
  decimal_formats :: "(ustr option \<times> NumberPattern) list"
  currency_formats :: "(ustr \<times> NumberPattern) list"
  compact_decimal_formats :: "(ustr \<times> (ustr \<times> (ustr \<times> NumberPattern) list) list) list"
  currencies :: "(ustr \<times> (ustr \<times> ustr) list) list"
  plural_form :: "decimal \<Rightarrow> ustr"

text \<open>
  The global tables and \<open>Locale.parse\<close>. An entry of \<open>currency_fractions\<close> is a dictionary
  or a tuple of numbers. An entry of \<open>territory_currencies\<close> is a list of tuples, of which
  the first field and the number of further fields are kept. \<open>Locale.parse\<close> returns a locale
  object or raises.
\<close>

datatype fraction_entry = FractionDict "(ustr \<times> nat) list" | FractionTuple "nat list"

record environment =
  currency_fractions :: "(ustr \<times> fraction_entry) list"
  territory_currencies :: "(ustr \<times> (ustr \<times> nat) list) list"
  Locale_parse :: "ustr \<Rightarrow> py_error + babel_locale"

text \<open>The argument \<open>locale\<close>: \<open>None\<close>, an identifier, or a locale object.\<close>

datatype locale_arg = LocaleNone | LocaleStr ustr | LocaleObj babel_locale

subsection \<open>\<open>list_currencies\<close>, \<open>validate_currency\<close> and \<open>is_currency\<close>\<close>

text \<open>
  \<open>set(currency for currency, _ in currencies[territory])\<close>: the unpacking raises
  \<open>ValueError\<close> for a tuple that does not have exactly two fields. Sets of currency codes
  are lists, read by membership only.
\<close>

definition unpack_pair :: "ustr \<times> nat \<Rightarrow> py_error + ustr" where
  "unpack_pair entry =
     (if snd entry = 1 then Inr (fst entry)
      else if snd entry = 0 then Inl (ValueError ''not enough values to unpack (expected 2, got 1)'')
      else Inl (ValueError ''too many values to unpack (expected 2)''))"

definition territory_list :: "environment \<Rightarrow> babel_locale \<Rightarrow> py_error + ustr list" where
  "territory_list env loc =
     (case territory loc of
        None \<Rightarrow> Inr []
      | Some t \<Rightarrow>
          (case map_of (territory_currencies env) t of
             None \<Rightarrow> Inr []
           | Some entries \<Rightarrow> sequence_sum (map unpack_pair entries)))"

definition list_currencies :: "environment \<Rightarrow> locale_arg \<Rightarrow> py_error + ustr list" where
  "list_currencies env loc =
     (case loc of
        LocaleNone \<Rightarrow> Inr (map fst (currency_fractions env))
      | LocaleStr identifier \<Rightarrow> and_then (Locale_parse env identifier) (territory_list env)
      | LocaleObj l \<Rightarrow> territory_list env l)"

definition validate_currency :: "environment \<Rightarrow> ustr \<Rightarrow> locale_arg \<Rightarrow> py_error + unit" where
  "validate_currency env currency loc =
     and_then (list_currencies env loc) (\<lambda>known.
       if currency \<notin> set known then Inl (UnknownCurrencyError currency) else Inr ())"

text \<open>\<open>try: ... except UnknownCurrencyError: return False\<close>: every other exception goes on.\<close>

definition is_currency :: "environment \<Rightarrow> ustr \<Rightarrow> locale_arg \<Rightarrow> py_error + bool" where
  "is_currency env currency loc =
     (case validate_currency env currency loc of
        Inr u \<Rightarrow> Inr True
      | Inl e \<Rightarrow> (case e of UnknownCurrencyError identifier \<Rightarrow> Inr False | _ \<Rightarrow> Inl e))"

text \<open>
  \<open>get_currency_precision\<close>:
  \<open>get_global('currency_fractions').get(currency, {}).get('digits', 2)\<close>; a tuple has no
  method \<open>get\<close>.
\<close>

definition get_currency_precision :: "environment \<Rightarrow> ustr \<Rightarrow> py_error + nat" where
  "get_currency_precision env currency =
     (case map_of (currency_fractions env) currency of
        None \<Rightarrow> Inr 2
      | Some (FractionDict d) \<Rightarrow>
          (case map_of d (ustr_of ''digits'') of None \<Rightarrow> Inr 2 | Some n \<Rightarrow> Inr n)
      | Some (FractionTuple t) \<Rightarrow> Inl (AttributeError ''tuple object has no attribute get''))"

definition is_UnknownCurrencyError :: "py_error \<Rightarrow> bool" where
  "is_UnknownCurrencyError e = (case e of UnknownCurrencyError identifier \<Rightarrow> True | _ \<Rightarrow> False)"

text \<open>
  An environment with one known currency, in which \<open>Locale.parse\<close> finds no locale data
  and raises \<open>UnknownLocaleError\<close> for every identifier.
\<close>

definition no_locale_env :: environment where
  "no_locale_env =
     \<lparr>currency_fractions = [(ustr_of ''USD'', FractionDict [(ustr_of ''digits'', 2)])],
      territory_currencies = [],
      Locale_parse = (\<lambda>identifier. Inl (UnknownLocaleError identifier))\<rparr>"

section \<open>babel.numbers: rendering\<close>

text \<open>
  The numbers that are rendered are finite \<open>Decimal\<close> values; a number given as an integer
  or a float is the value of \<open>Decimal(str(number))\<close>. The argument \<open>locale\<close> is a locale
  object.
\<close>

subsection \<open>\<open>get_decimal_quantum\<close>\<close>

text \<open>For an integer precision: \<open>Decimal('0.1') ** precision\<close>, the power of ten with coefficient 1.\<close>

definition get_decimal_quantum :: "nat \<Rightarrow> decimal" where
  "get_decimal_quantum precision = Decimal False 1 (- int precision)"

subsection \<open>\<open>NumberPattern.apply\<close>\<close>

text \<open>\<open>s.partition('.')\<close>: the text before the first point and the text after it.\<close>

definition partition_point :: "ustr \<Rightarrow> ustr \<times> ustr" where
  "partition_point s = (takeWhile (\<lambda>c. c \<noteq> 0x2E) s, drop 1 (dropWhile (\<lambda>c. c \<noteq> 0x2E) s))"

text \<open>\<open>s.rstrip('0')\<close>.\<close>

definition rstrip_zeros :: "ustr \<Rightarrow> ustr" where
  "rstrip_zeros s = rev (dropWhile (\<lambda>c. c = 0x30) (rev s))"

text \<open>The truth value of an optional string: \<open>None\<close> and the empty string are false.\<close>

definition truthy :: "ustr option \<Rightarrow> bool" where
  "truthy s = (case s of None \<Rightarrow> False | Some t \<Rightarrow> t \<noteq> [])"

text \<open>\<open>frac_prec[1]\<close>: subscripting \<open>None\<close> raises \<open>TypeError\<close>.\<close>

definition second_of :: "(nat \<times> nat) option \<Rightarrow> py_error + nat" where
  "second_of p =
     (case p of None \<Rightarrow> Inl (TypeError ''NoneType object is not subscriptable'')
      | Some q \<Rightarrow> Inr (snd q))"

text \<open>\<open>dictionary[key]\<close>: \<open>KeyError\<close> for a key that is missing.\<close>

definition lookup :: "(ustr \<times> 'v) list \<Rightarrow> string \<Rightarrow> py_error + 'v" where
  "lookup d k = (case map_of d (ustr_of k) of None \<Rightarrow> Inl (KeyError k) | Some v \<Rightarrow> Inr v)"

text \<open>
  \<open>locale.number_symbols[numbering_system]\<close> after the replacement of \<open>default\<close>, with
  \<open>KeyError\<close> turned into \<open>UnsupportedNumberingSystemError\<close>.
\<close>

definition symbols_of :: "babel_locale \<Rightarrow> ustr \<Rightarrow> py_error + (ustr \<times> ustr) list" where
  "symbols_of loc numbering_system =
     (let ns = (if numbering_system = ustr_of ''default'' then default_numbering_system loc
                else numbering_system)
      in case map_of (number_symbols loc) ns of
           None \<Rightarrow> Inl (UnsupportedNumberingSystemError ns)
         | Some symbols \<Rightarrow> Inr symbols)"

text \<open>
  The part of \<open>apply\<close> that follows the scaling: the choice of the fraction precision, the
  quantization, the lookup of the symbols, the rendering of the absolute value with
  \<open>f"{value:.{frac_prec[1]}f}"\<close>, the grouping of the integer part, the fraction part
  without trailing zeros, and the affixes for the sign.
\<close>

definition render_scaled ::
  "environment \<Rightarrow> NumberPattern \<Rightarrow> bool \<Rightarrow> decimal \<Rightarrow> babel_locale \<Rightarrow> ustr option \<Rightarrow> bool \<Rightarrow> bool
   \<Rightarrow> (nat \<times> nat) option \<Rightarrow> bool \<Rightarrow> ustr \<Rightarrow> py_error + ustr" where
  "render_scaled env self is_negative val loc currency currency_digits decimal_quantization
     force_frac group_separator numbering_system =
     and_then
       (if truthy currency \<and> currency_digits then
          and_then (get_currency_precision env (the currency)) (\<lambda>p. Inr (Some (p, p)))
        else if force_frac \<noteq> None then Inr force_frac
        else Inr (frac_prec self)) (\<lambda>frac_prec1.
     and_then
       (if decimal_quantization then
          and_then (second_of frac_prec1) (\<lambda>precision.
            quantize val (get_decimal_quantum precision))
        else Inr val) (\<lambda>val1.
     and_then (symbols_of loc numbering_system) (\<lambda>symbols.
     and_then (second_of frac_prec1) (\<lambda>precision.
     (case partition_point (format_f (dec_abs val1) precision) of
        (a, b) \<Rightarrow>
          and_then
            (if group_separator then
               and_then (lookup symbols ''group'') (\<lambda>group_symbol.
                 format_int_part a (grouping self) group_symbol)
             else Inr a) (\<lambda>a1.
          and_then
            (if b \<noteq> [] then
               (let b1 = take precision (rstrip_zeros b)
                in if b1 \<noteq> [] then
                     and_then (lookup symbols ''decimal'') (\<lambda>decimal_symbol.
                       Inr (decimal_symbol @ b1))
                   else Inr b1)
             else Inr b) (\<lambda>b2.
            Inr ((if is_negative then snd (prefix self) else fst (prefix self))
                 @ (a1 @ b2)
                 @ (if is_negative then snd (suffix self) else fst (suffix self))))))))))"

text \<open>
  \<open>apply\<close>: the sign is taken from the value as given, and the value is multiplied by
  \<open>10 ** self.scale\<close> when the scale is not zero, before everything else.
\<close>

definition NumberPattern_apply ::
  "environment \<Rightarrow> NumberPattern \<Rightarrow> decimal \<Rightarrow> babel_locale \<Rightarrow> ustr option \<Rightarrow> bool \<Rightarrow> bool
   \<Rightarrow> (nat \<times> nat) option \<Rightarrow> bool \<Rightarrow> ustr \<Rightarrow> py_error + ustr" where
  "NumberPattern_apply env self val loc currency currency_digits decimal_quantization
     force_frac group_separator numbering_system =
     render_scaled env self (dec_negative val)
       (if scale self \<noteq> 0 then dec_mul val (dec_of_int (10 ^ scale self)) else val)
       loc currency currency_digits decimal_quantization force_frac group_separator
       numbering_system"

subsection \<open>\<open>format_decimal\<close>\<close>

text \<open>
  The parameters of \<open>NumberPattern.apply\<close> besides \<open>self\<close>. A call with a keyword argument
  that is none of them raises \<open>TypeError\<close> before the body runs.
\<close>

definition apply_parameters :: "string list" where
  "apply_parameters =
     [''value'', ''locale'', ''currency'', ''currency_digits'', ''decimal_quantization'',
      ''force_frac'', ''group_separator'', ''numbering_system'']"

definition unexpected_keyword :: "string list \<Rightarrow> string option" where
  "unexpected_keyword keywords = find (\<lambda>k. k \<notin> set apply_parameters) keywords"

text \<open>
  \<open>format_decimal\<close> for a \<open>format\<close> that is \<open>None\<close> or a compiled pattern. It ends with the
  call \<open>format.apply(number, locale, decimal_quantization=..., group_separator=...,
  symbols=symbols)\<close>.
\<close>

definition format_decimal ::
  "environment \<Rightarrow> babel_locale \<Rightarrow> decimal \<Rightarrow> NumberPattern option \<Rightarrow> bool \<Rightarrow> bool \<Rightarrow> ustr
   \<Rightarrow> py_error + ustr" where
  "format_decimal env loc number format decimal_quantization group_separator numbering_system =
     and_then
       (case format of
          None \<Rightarrow>
            (case map_of (decimal_formats loc) None of
               None \<Rightarrow> Inl (KeyError ''None'')
             | Some p \<Rightarrow> Inr p)
        | Some p \<Rightarrow> Inr p) (\<lambda>format1.
     and_then (symbols_of loc numbering_system) (\<lambda>symbols.
       (case unexpected_keyword [''decimal_quantization'', ''group_separator'', ''symbols''] of
          Some k \<Rightarrow> Inl (TypeError (''apply() got an unexpected keyword argument '' @ k))
        | None \<Rightarrow>
            NumberPattern_apply env format1 number loc None True decimal_quantization None
              group_separator (ustr_of ''latn''))))"

subsection \<open>\<open>format_currency\<close>\<close>

text \<open>
  \<open>get_currency_name\<close> for a count: the name for the plural category of the count, or
  else the name for \<open>other\<close> (which may be missing: \<open>None\<close>), or the code when the locale
  has no names for the currency.
\<close>

definition nonempty_or :: "ustr option \<Rightarrow> ustr option \<Rightarrow> ustr option" where
  "nonempty_or x y = (if truthy x then x else y)"

definition get_currency_name :: "ustr \<Rightarrow> decimal \<Rightarrow> babel_locale \<Rightarrow> ustr option" where
  "get_currency_name currency count loc =
     (case map_of (currencies loc) currency of
        None \<Rightarrow> Some currency
      | Some currency_names \<Rightarrow>
          if currency_names \<noteq> []
          then nonempty_or (map_of currency_names (plural_form loc count))
                 (map_of currency_names (ustr_of ''other''))
          else Some currency)"

text \<open>
  \<open>_format_currency_long_name\<close>: the template is
  \<open>locale.currency_formats.get('name_pattern', '{0} {1}')\<close>; an entry of
  \<open>currency_formats\<close> is a compiled pattern, which has no method \<open>format\<close>.
\<close>

definition format_currency_long_name ::
  "environment \<Rightarrow> decimal \<Rightarrow> ustr \<Rightarrow> NumberPattern option \<Rightarrow> babel_locale \<Rightarrow> bool \<Rightarrow> bool \<Rightarrow> bool
   \<Rightarrow> ustr \<Rightarrow> py_error + ustr" where
  "format_currency_long_name env number currency format loc currency_digits
     decimal_quantization group_separator numbering_system =
     and_then (format_decimal env loc number format decimal_quantization group_separator
                 numbering_system) (\<lambda>formatted_number.
       (case map_of (currency_formats loc) (ustr_of ''name_pattern'') of
          Some p \<Rightarrow> Inl (AttributeError ''NumberPattern object has no attribute format'')
        | None \<Rightarrow>
            Inr (formatted_number @ [0x20]
                 @ (case get_currency_name currency number loc of
                      None \<Rightarrow> ustr_of ''None'' | Some name \<Rightarrow> name))))"

text \<open>
  \<open>format_currency\<close>: the argument \<open>format\<close> is used for the long names only; otherwise
  the pattern is \<open>locale.currency_formats[format_type]\<close>.
\<close>

definition format_currency ::
  "environment \<Rightarrow> babel_locale \<Rightarrow> decimal \<Rightarrow> ustr \<Rightarrow> NumberPattern option \<Rightarrow> bool \<Rightarrow> ustr \<Rightarrow> bool
   \<Rightarrow> bool \<Rightarrow> ustr \<Rightarrow> py_error + ustr" where
  "format_currency env loc number currency format currency_digits format_type
     decimal_quantization group_separator numbering_system =
     (if format_type = ustr_of ''name'' then
        format_currency_long_name env number currency format loc currency_digits
          decimal_quantization group_separator numbering_system
      else
        (case map_of (currency_formats loc) format_type of
           None \<Rightarrow> Inl (UnknownCurrencyFormatError format_type)
         | Some pat \<Rightarrow>
             NumberPattern_apply env pat number loc (Some currency) currency_digits
               decimal_quantization None group_separator numbering_system))"

chapter \<open>The properties\<close>

section \<open>Sequencing and slices\<close>

lemma and_then_simps [simp]:
  "and_then (Inl e) f = Inl e"
  "and_then (Inr x) f = f x"
  by (simp_all add: and_then_def)

lemma and_then_Inr_iff: "and_then r f = Inr y \<longleftrightarrow> (\<exists>x. r = Inr x \<and> f x = Inr y)"
  by (cases r) simp_all

lemma length_pyslice: "length (pyslice xs a b) = min (b - a) (length xs - a)"
  by (simp add: pyslice_def)

lemma unpack_I_full:
  "4 \<le> length buf \<Longrightarrow> unpack_I ii (pyslice buf 0 4) = Inr (u32_val ii (pyslice buf 0 4))"
  by (simp add: unpack_I_def length_pyslice)

lemma unpack_4I_full:
  "20 \<le> length buf \<Longrightarrow> unpack_4I ii (pyslice buf 4 20) = Inr (fields_4I ii (pyslice buf 4 20))"
  by (simp add: unpack_4I_def length_pyslice)

lemma unpack_II_full:
  "idx + 8 \<le> length buf \<Longrightarrow>
   unpack_II ii (pyslice buf idx (idx + 8)) = Inr (fields_II ii (pyslice buf idx (idx + 8)))"
  by (simp add: unpack_II_def length_pyslice)

lemma unpack_II_Inr: "unpack_II ii bs = Inr p \<Longrightarrow> p = fields_II ii bs"
  by (simp add: unpack_II_def split: if_splits)

section \<open>babel.messages.mofile\<close>

subsection \<open>The header checks and the loop of \<open>read_mo\<close>\<close>

lemma read_mo_bad_magic:
  assumes "4 \<le> length buf" "mo_magic buf \<noteq> LE_MAGIC" "mo_magic buf \<noteq> BE_MAGIC"
  shows "read_mo buf = Inl (IOError ''Invalid magic number'')"
  using assms by (simp add: read_mo_def unpack_I_full mo_magic_def)

lemma read_mo_header:
  assumes "20 \<le> length buf" "mo_magic buf = LE_MAGIC \<or> mo_magic buf = BE_MAGIC"
  shows "read_mo buf =
     (if mo_version buf \<noteq> 0 \<and> mo_version buf \<noteq> 1 then Inl (IOError ''Unknown MO file version'')
      else read_entries (mo_endian buf) buf (mo_msgcount buf) (mo_masteridx buf) (mo_transidx buf) [])"
proof -
  have ne: "LE_MAGIC \<noteq> BE_MAGIC" by (simp add: LE_MAGIC_def BE_MAGIC_def)
  from assms(1) have l4: "4 \<le> length buf" by simp
  show ?thesis using assms(2) ne
    by (auto simp: read_mo_def unpack_I_full[OF l4] unpack_4I_full[OF assms(1)] mo_magic_def mo_endian_def
        mo_version_def mo_msgcount_def mo_masteridx_def mo_transidx_def split: prod.splits)
qed

lemma read_mo_Inr_header:
  assumes "read_mo buf = Inr catalog"
  shows "20 \<le> length buf \<and> (mo_magic buf = LE_MAGIC \<or> mo_magic buf = BE_MAGIC)"
proof -
  from assms obtain magic where m: "unpack_I Little (pyslice buf 0 4) = Inr magic"
    by (auto simp: read_mo_def and_then_Inr_iff)
  then have l4: "length (pyslice buf 0 4) = 4" and mg: "magic = mo_magic buf"
    by (auto simp: unpack_I_def mo_magic_def split: if_splits)
  from assms m mg have ok: "mo_magic buf = LE_MAGIC \<or> mo_magic buf = BE_MAGIC"
    by (auto simp: read_mo_def split: if_splits)
  from assms m mg ok obtain ii h where "unpack_4I ii (pyslice buf 4 20) = Inr h"
    by (auto simp: read_mo_def and_then_Inr_iff split: if_splits)
  then have "length (pyslice buf 4 20) = 16" by (auto simp: unpack_4I_def split: if_splits)
  then have "20 \<le> length buf" by (simp add: length_pyslice)
  with ok show ?thesis by simp
qed

lemma read_entry_Inr_range:
  assumes "read_entry ii buf m t = Inr r"
  shows "snd (fields_II ii (pyslice buf m (m + 8))) + fst (fields_II ii (pyslice buf m (m + 8))) \<le> length buf
       \<and> snd (fields_II ii (pyslice buf t (t + 8))) + fst (fields_II ii (pyslice buf t (t + 8))) \<le> length buf"
proof -
  from assms obtain p where p: "unpack_II ii (pyslice buf m (m + 8)) = Inr p"
    by (auto simp: read_entry_def and_then_Inr_iff)
  from assms p obtain q where q: "unpack_II ii (pyslice buf t (t + 8)) = Inr q"
    by (auto simp: read_entry_def and_then_Inr_iff Let_def split: prod.splits)
  have pe: "p = fields_II ii (pyslice buf m (m + 8))" using p by (rule unpack_II_Inr)
  have qe: "q = fields_II ii (pyslice buf t (t + 8))" using q by (rule unpack_II_Inr)
  from assms p q have "\<not> (snd p + fst p > length buf \<or> snd q + fst q > length buf)"
    by (cases p; cases q) (auto simp: read_entry_def Let_def split: if_splits)
  with pe qe show ?thesis by auto
qed

lemma read_entry_corrupt:
  assumes "m + 8 \<le> length buf" "t + 8 \<le> length buf"
    and "snd (fields_II ii (pyslice buf m (m + 8))) + fst (fields_II ii (pyslice buf m (m + 8))) > length buf
       \<or> snd (fields_II ii (pyslice buf t (t + 8))) + fst (fields_II ii (pyslice buf t (t + 8))) > length buf"
  shows "read_entry ii buf m t = Inl (IOError ''File is corrupt'')"
  using assms(3)
  by (cases "fields_II ii (pyslice buf m (m + 8))"; cases "fields_II ii (pyslice buf t (t + 8))")
     (auto simp: read_entry_def unpack_II_full[OF assms(1)] unpack_II_full[OF assms(2)] Let_def)

lemma read_entries_Inr:
  "read_entries ii buf n m t cat = Inr cat' \<Longrightarrow>
   \<forall>i<n. \<exists>r. read_entry ii buf (m + 8 * i) (t + 8 * i) = Inr r"
proof (induction n arbitrary: m t cat)
  case 0
  then show ?case by simp
next
  case (Suc n)
  from Suc.prems obtain i s where r: "read_entry ii buf m t = Inr (i, s)"
    and rest: "read_entries ii buf n (m + 8) (t + 8) (catalog_add cat i s) = Inr cat'"
    by (auto simp: and_then_Inr_iff)
  from Suc.IH[OF rest]
  have all: "\<forall>j<n. \<exists>r. read_entry ii buf (m + 8 + 8 * j) (t + 8 + 8 * j) = Inr r" .
  have "\<exists>r. read_entry ii buf (m + 8 * j) (t + 8 * j) = Inr r" if "j < Suc n" for j
  proof (cases j)
    case 0
    with r show ?thesis by simp
  next
    case (Suc j')
    with that all have "\<exists>r. read_entry ii buf (m + 8 + 8 * j') (t + 8 + 8 * j') = Inr r" by simp
    with Suc show ?thesis by (simp add: add.assoc)
  qed
  then show ?case by blast
qed

lemma read_entries_first_error:
  "k < n \<Longrightarrow> \<forall>j<k. \<exists>r. read_entry ii buf (m + 8 * j) (t + 8 * j) = Inr r \<Longrightarrow>
   read_entry ii buf (m + 8 * k) (t + 8 * k) = Inl e \<Longrightarrow>
   read_entries ii buf n m t cat = Inl e"
proof (induction k arbitrary: n m t cat)
  case 0
  then obtain n' where "n = Suc n'" by (cases n) auto
  with 0 show ?case by simp
next
  case (Suc k)
  then obtain n' where n: "n = Suc n'" and kn: "k < n'" by (cases n) auto
  from Suc.prems(2) obtain i s where r: "read_entry ii buf m t = Inr (i, s)"
    by force
  have a: "\<forall>j<k. \<exists>r. read_entry ii buf (m + 8 + 8 * j) (t + 8 + 8 * j) = Inr r"
  proof (intro allI impI)
    fix j assume "j < k"
    then have "Suc j < Suc k" by simp
    with Suc.prems(2) have "\<exists>r. read_entry ii buf (m + 8 * Suc j) (t + 8 * Suc j) = Inr r" by blast
    then show "\<exists>r. read_entry ii buf (m + 8 + 8 * j) (t + 8 + 8 * j) = Inr r" by (simp add: add.assoc)
  qed
  have b: "read_entry ii buf (m + 8 + 8 * k) (t + 8 + 8 * k) = Inl e"
    using Suc.prems(3) by (simp add: add.assoc)
  from Suc.IH[OF kn a b] have "read_entries ii buf n' (m + 8) (t + 8) (catalog_add cat i s) = Inl e" .
  with n r show ?case by simp
qed

subsection \<open>Evaluation of the concrete buffers\<close>

lemmas mo_eval = read_mo_def unpack_I_def unpack_4I_def unpack_II_def fields_II_def fields_4I_def
  pyslice_def u32_val_def le_val_def be_val_def LE_MAGIC_def BE_MAGIC_def read_entry_def
  mo_magic_def mo_endian_def mo_version_def mo_msgcount_def mo_masteridx_def mo_transidx_def
  mo_slot_def mo_blob_end_def

lemmas write_mo_eval = write_mo_def sort_messages_def id_falsy_def string_falsy_def fuzzy_def
  ustr_of_def mo_id_def mo_string_def encode_utf8_def pack_Iiiiiii_def array_I_tobytes_def
  le32_def LE_MAGIC_def

lemma succeeds_iff: "succeeds r \<longleftrightarrow> (\<exists>x. r = Inr x)"
  by (cases r) (simp_all add: succeeds_def)

subsection \<open>Claim C1: the round trip through \<open>write_mo\<close> and \<open>read_mo\<close>\<close>

text \<open>
  C1 states that reading back what \<open>write_mo\<close> wrote yields every (id, string) pair, that an
  index-table entry is the pair (length, offset) and that a plural id is packed as
  \<open>msgid NUL msgid_plural\<close>. On the catalog that holds the single message \<open>foo\<close> with the
  translation \<open>Voh\<close>, \<open>write_mo\<close> succeeds with the 52 bytes \<open>foo_written\<close>, but the slot of
  the key blob (3 bytes at offset 44) holds 44 first and 3 second, so that the reader takes 44
  for the length, and the header puts the value index at 30 instead of 36: \<open>read_mo\<close> raises
  the I/O error of a corrupt file on these bytes. On a message with a plural id \<open>write_mo\<close>
  raises \<open>AttributeError\<close>, since a pair has no method \<open>encode\<close>. The ordering of the messages
  plays no role for a catalog of one message.
\<close>

theorem write_mo_then_read_mo_fails:
  "write_mo lt [foo_message] False = Inr foo_written
   \<and> mo_slot foo_written 28 = (44, 3)
   \<and> mo_transidx foo_written = 30
   \<and> read_mo foo_written = Inl (IOError ''File is corrupt'')
   \<and> write_mo lt [bar_baz_message] False
       = Inl (AttributeError ''tuple object has no attribute encode'')"
proof (intro conjI)
  show "write_mo lt [foo_message] False = Inr foo_written"
    by (simp add: write_mo_eval foo_message_def foo_written_def)
  show "mo_slot foo_written 28 = (44, 3)"
    by (simp add: foo_written_def mo_eval)
  show "mo_transidx foo_written = 30"
    by (simp add: foo_written_def mo_eval)
  show "read_mo foo_written = Inl (IOError ''File is corrupt'')"
    by (simp add: foo_written_def mo_eval)
  show "write_mo lt [bar_baz_message] False
       = Inl (AttributeError ''tuple object has no attribute encode'')"
    by (simp add: write_mo_eval bar_baz_message_def)
qed

subsection \<open>Claim C9: \<open>read_mo\<close> on corrupt buffers\<close>

text \<open>
  C9, as stated, promises an I/O error whenever the offset plus length of any index entry
  exceeds the buffer. Counterexample: a file cut off after its key index entry. The header is
  well formed and announces one message, the key entry describes a blob that ends at byte 100
  of a buffer of 28 bytes, and \<open>read_mo\<close> raises \<open>struct.error\<close> while unpacking the missing
  value entry, before it compares the two ends with the length of the buffer.
\<close>

theorem read_mo_truncated_index_counterexample:
  "mo_magic truncated_buffer = LE_MAGIC
   \<and> mo_version truncated_buffer = 0
   \<and> mo_msgcount truncated_buffer = 1
   \<and> length truncated_buffer < mo_blob_end truncated_buffer (mo_masteridx truncated_buffer)
   \<and> read_mo truncated_buffer = Inl StructError"
  by (simp add: truncated_buffer_def mo_eval)

text \<open>
  C9, amended: \<open>read_mo\<close> raises the I/O error \<open>Invalid magic number\<close> on every buffer of at
  least 4 bytes whose magic number is neither constant; \<open>Unknown MO file version\<close> on every
  buffer with a complete header of 20 bytes, a known magic number and a version other than 0
  and 1; and \<open>File is corrupt\<close> at the first pair of index slots for which an offset plus
  length exceeds the length of the buffer, when both slots lie inside the buffer and the
  loop body succeeded on every earlier pair. Whenever \<open>read_mo\<close> returns a catalog, the header
  was complete with a known magic number and version, and every index entry describes a blob
  inside the buffer: no catalog is returned for a buffer with an unknown magic number or
  version or with an index entry that reaches beyond the buffer.
\<close>

theorem read_mo_rejects_corrupt_buffers:
  "(4 \<le> length buf \<and> mo_magic buf \<noteq> LE_MAGIC \<and> mo_magic buf \<noteq> BE_MAGIC
      \<longrightarrow> read_mo buf = Inl (IOError ''Invalid magic number''))
   \<and> (20 \<le> length buf \<and> (mo_magic buf = LE_MAGIC \<or> mo_magic buf = BE_MAGIC)
        \<and> mo_version buf \<noteq> 0 \<and> mo_version buf \<noteq> 1
      \<longrightarrow> read_mo buf = Inl (IOError ''Unknown MO file version''))
   \<and> (20 \<le> length buf \<and> (mo_magic buf = LE_MAGIC \<or> mo_magic buf = BE_MAGIC)
        \<and> (mo_version buf = 0 \<or> mo_version buf = 1)
        \<and> k < mo_msgcount buf \<and> (\<forall>j<k. mo_entry_ok buf j)
        \<and> mo_masteridx buf + 8 * k + 8 \<le> length buf
        \<and> mo_transidx buf + 8 * k + 8 \<le> length buf
        \<and> (length buf < mo_blob_end buf (mo_masteridx buf + 8 * k)
            \<or> length buf < mo_blob_end buf (mo_transidx buf + 8 * k))
      \<longrightarrow> read_mo buf = Inl (IOError ''File is corrupt''))
   \<and> (read_mo buf = Inr catalog
      \<longrightarrow> 20 \<le> length buf \<and> (mo_magic buf = LE_MAGIC \<or> mo_magic buf = BE_MAGIC)
          \<and> (mo_version buf = 0 \<or> mo_version buf = 1)
          \<and> (\<forall>i<mo_msgcount buf.
                mo_blob_end buf (mo_masteridx buf + 8 * i) \<le> length buf
                \<and> mo_blob_end buf (mo_transidx buf + 8 * i) \<le> length buf))"
  (is "?magic \<and> ?version \<and> ?entry \<and> ?returned")
proof -
  let ?ii = "mo_endian buf" and ?m = "mo_masteridx buf" and ?t = "mo_transidx buf"
  have c1: ?magic
    by (simp add: read_mo_bad_magic)
  have c2: ?version
    by (simp add: read_mo_header)
  have c3: ?entry
  proof
    assume a: "20 \<le> length buf \<and> (mo_magic buf = LE_MAGIC \<or> mo_magic buf = BE_MAGIC)
        \<and> (mo_version buf = 0 \<or> mo_version buf = 1)
        \<and> k < mo_msgcount buf \<and> (\<forall>j<k. mo_entry_ok buf j)
        \<and> mo_masteridx buf + 8 * k + 8 \<le> length buf
        \<and> mo_transidx buf + 8 * k + 8 \<le> length buf
        \<and> (length buf < mo_blob_end buf (mo_masteridx buf + 8 * k)
            \<or> length buf < mo_blob_end buf (mo_transidx buf + 8 * k))"
    then have "\<forall>j<k. mo_entry_ok buf j" by blast
    then have earlier: "\<forall>j<k. \<exists>r. read_entry ?ii buf (?m + 8 * j) (?t + 8 * j) = Inr r"
      by (simp add: mo_entry_ok_def succeeds_iff)
    from a have "read_entry ?ii buf (?m + 8 * k) (?t + 8 * k) = Inl (IOError ''File is corrupt'')"
      by (intro read_entry_corrupt) (auto simp: mo_blob_end_def mo_slot_def)
    with a earlier
    have "read_entries ?ii buf (mo_msgcount buf) ?m ?t [] = Inl (IOError ''File is corrupt'')"
      by (intro read_entries_first_error) auto
    with a show "read_mo buf = Inl (IOError ''File is corrupt'')"
      by (auto simp: read_mo_header)
  qed
  have c4: ?returned
  proof
    assume r: "read_mo buf = Inr catalog"
    then have h: "20 \<le> length buf \<and> (mo_magic buf = LE_MAGIC \<or> mo_magic buf = BE_MAGIC)"
      by (rule read_mo_Inr_header)
    with r have v: "mo_version buf = 0 \<or> mo_version buf = 1"
      and l: "read_entries ?ii buf (mo_msgcount buf) ?m ?t [] = Inr catalog"
      by (auto simp: read_mo_header split: if_splits)
    from read_entries_Inr[OF l]
    have ok: "\<forall>i<mo_msgcount buf. \<exists>r. read_entry ?ii buf (?m + 8 * i) (?t + 8 * i) = Inr r" .
    have "mo_blob_end buf (?m + 8 * i) \<le> length buf \<and> mo_blob_end buf (?t + 8 * i) \<le> length buf"
      if "i < mo_msgcount buf" for i
    proof -
      from ok that obtain r where "read_entry ?ii buf (?m + 8 * i) (?t + 8 * i) = Inr r" by blast
      from read_entry_Inr_range[OF this] show ?thesis by (simp add: mo_blob_end_def mo_slot_def)
    qed
    with h v
    show "20 \<le> length buf \<and> (mo_magic buf = LE_MAGIC \<or> mo_magic buf = BE_MAGIC)
          \<and> (mo_version buf = 0 \<or> mo_version buf = 1)
          \<and> (\<forall>i<mo_msgcount buf.
                mo_blob_end buf (mo_masteridx buf + 8 * i) \<le> length buf
                \<and> mo_blob_end buf (mo_transidx buf + 8 * i) \<le> length buf)"
      by blast
  qed
  from c1 c2 c3 c4 show ?thesis by (intro conjI)
qed

text \<open>
  Witness for C9: the four parts at concrete buffers, namely four zero bytes, a header with
  version 2, the bytes \<open>foo_written\<close> (whose first pair of slots is out of range), and the
  well-formed file \<open>foo_mo_file\<close>, which reads back as the catalog of \<open>foo_message\<close>.
\<close>

theorem read_mo_rejects_corrupt_buffers_witness:
  "read_mo bad_magic_buffer = Inl (IOError ''Invalid magic number'')
   \<and> read_mo bad_version_buffer = Inl (IOError ''Unknown MO file version'')
   \<and> read_mo foo_written = Inl (IOError ''File is corrupt'')
   \<and> read_mo foo_mo_file = Inr [foo_message]
   \<and> mo_blob_end foo_mo_file (mo_masteridx foo_mo_file) \<le> length foo_mo_file"
proof -
  have w1: "4 \<le> length bad_magic_buffer \<and> mo_magic bad_magic_buffer \<noteq> LE_MAGIC
      \<and> mo_magic bad_magic_buffer \<noteq> BE_MAGIC"
    by (simp add: bad_magic_buffer_def mo_eval)
  have w2: "20 \<le> length bad_version_buffer
      \<and> (mo_magic bad_version_buffer = LE_MAGIC \<or> mo_magic bad_version_buffer = BE_MAGIC)
      \<and> mo_version bad_version_buffer \<noteq> 0 \<and> mo_version bad_version_buffer \<noteq> 1"
    by (simp add: bad_version_buffer_def mo_eval)
  have w3: "20 \<le> length foo_written
      \<and> (mo_magic foo_written = LE_MAGIC \<or> mo_magic foo_written = BE_MAGIC)
      \<and> (mo_version foo_written = 0 \<or> mo_version foo_written = 1)
      \<and> 0 < mo_msgcount foo_written \<and> (\<forall>j<0::nat. mo_entry_ok foo_written j)
      \<and> mo_masteridx foo_written + 8 * 0 + 8 \<le> length foo_written
      \<and> mo_transidx foo_written + 8 * 0 + 8 \<le> length foo_written
      \<and> (length foo_written < mo_blob_end foo_written (mo_masteridx foo_written + 8 * 0)
          \<or> length foo_written < mo_blob_end foo_written (mo_transidx foo_written + 8 * 0))"
    by (simp add: foo_written_def mo_eval)
  have w4: "read_mo foo_mo_file = Inr [foo_message]"
    by (simp add: foo_mo_file_def mo_eval foo_message_def decode_utf8_def prepend_def
        catalog_add_def ustr_of_def)
  have m: "0 < mo_msgcount foo_mo_file"
    by (simp add: foo_mo_file_def mo_eval)
  from read_mo_rejects_corrupt_buffers[of bad_magic_buffer] w1
  have c1: "read_mo bad_magic_buffer = Inl (IOError ''Invalid magic number'')" by blast
  from read_mo_rejects_corrupt_buffers[of bad_version_buffer] w2
  have c2: "read_mo bad_version_buffer = Inl (IOError ''Unknown MO file version'')" by blast
  from read_mo_rejects_corrupt_buffers[of foo_written 0] w3
  have c3: "read_mo foo_written = Inl (IOError ''File is corrupt'')" by blast
  from read_mo_rejects_corrupt_buffers[of foo_mo_file _ "[foo_message]"] w4
  have c4: "\<forall>i<mo_msgcount foo_mo_file.
          mo_blob_end foo_mo_file (mo_masteridx foo_mo_file + 8 * i) \<le> length foo_mo_file
          \<and> mo_blob_end foo_mo_file (mo_transidx foo_mo_file + 8 * i) \<le> length foo_mo_file"
    by blast
  with m have "mo_blob_end foo_mo_file (mo_masteridx foo_mo_file + 8 * 0) \<le> length foo_mo_file"
    by blast
  with c1 c2 c3 w4 show ?thesis by simp
qed

section \<open>babel.messages.pofile\<close>

lemmas po_eval = normalize_def denormalize_def escape_def unescape_def strip_ends_def replace_def
  splitlines_keepends_def split_whitespace_def ustr_of_def is_linebreak_def is_space_def

subsection \<open>Claim C8: \<open>denormalize\<close> after \<open>normalize\<close>\<close>

text \<open>
  C8 states that \<open>denormalize(normalize(s, width=w)) == s\<close> for every string and every
  positive width. The code does not do so: for \<open>abc\<close> and the default width 76, \<open>normalize\<close>
  yields the two lines \<open>""\<close> and \<open>"abc"\<close>, of which \<open>denormalize\<close> cuts off three characters
  at the front and one at the end and \<open>unescape\<close> one more at each end, leaving \<open>ab\<close>. A
  line that is wrapped loses its white space (\<open>aaa bbb ccc\<close> at width 5 is written as
  \<open>aaabbbccc\<close>), and an escaped line feed is not turned back by \<open>unescape\<close>, which replaces
  the escapes of the backslash and of the quotation mark only.
\<close>

theorem denormalize_normalize_loses_text:
  "normalize (ustr_of ''abc'') [] (Some 76) = [0x22, 0x22, 0x0A, 0x22, 0x61, 0x62, 0x63, 0x22]
   \<and> denormalize (normalize (ustr_of ''abc'') [] (Some 76)) = ustr_of ''ab''
   \<and> normalize (ustr_of ''aaa bbb ccc'') [] (Some 5)
       = [0x22, 0x22, 0x0A, 0x22] @ ustr_of ''aaabbbccc'' @ [0x22]
   \<and> denormalize (normalize (ustr_of ''aaa bbb ccc'') [] (Some 5)) = ustr_of ''aaabbbcc''
   \<and> denormalize (normalize [0x61, 0x0A] [] (Some 76)) = [0x61, 0x5C]"
proof (intro conjI)
  show "normalize (ustr_of ''abc'') [] (Some 76) = [0x22, 0x22, 0x0A, 0x22, 0x61, 0x62, 0x63, 0x22]"
    by (simp add: po_eval)
  show "denormalize (normalize (ustr_of ''abc'') [] (Some 76)) = ustr_of ''ab''"
    by (simp add: po_eval)
  show "normalize (ustr_of ''aaa bbb ccc'') [] (Some 5)
       = [0x22, 0x22, 0x0A, 0x22] @ ustr_of ''aaabbbccc'' @ [0x22]"
    by (simp add: po_eval)
  show "denormalize (normalize (ustr_of ''aaa bbb ccc'') [] (Some 5)) = ustr_of ''aaabbbcc''"
    by (simp add: po_eval)
  show "denormalize (normalize [0x61, 0x0A] [] (Some 76)) = [0x61, 0x5C]"
    by (simp add: po_eval)
qed

section \<open>babel.numbers: \<open>NumberPattern\<close>\<close>

subsection \<open>Claim C5: grouping of the integer part\<close>

lemma format_int_loop_fst:
  "format_int_loop ds i (g1, g2) gsym result = format_int_loop ds i (g1, g1) gsym result"
  by (induction ds arbitrary: i result) simp_all

text \<open>
  C5 states that the group symbol is inserted every \<open>grouping[0]\<close> digits for the first
  group and every \<open>grouping[1]\<close> digits thereafter. \<open>_format_int_part\<close> reads the first
  component of \<open>grouping\<close> only: its result is the same for every secondary group size. For
  the digits \<open>1234567\<close> and the grouping (3, 2), which \<open>parse_grouping\<close> yields for a pattern
  such as \<open>#,##,##0\<close>, it returns \<open>1,234,567\<close>, where the rule of the claim gives
  \<open>12,34,567\<close>.
\<close>

theorem format_int_part_ignores_secondary_grouping:
  "format_int_part val (g1, g2) gsym = format_int_part val (g1, g1) gsym
   \<and> format_int_part (ustr_of ''1234567'') (3, 2) (ustr_of '','') = Inr (ustr_of ''1,234,567'')"
proof (intro conjI)
  show "format_int_part val (g1, g2) gsym = format_int_part val (g1, g1) gsym"
    unfolding format_int_part_def by (rule format_int_loop_fst)
  show "format_int_part (ustr_of ''1234567'') (3, 2) (ustr_of '','') = Inr (ustr_of ''1,234,567'')"
    by (simp add: format_int_part_def ustr_of_def)
qed

section \<open>babel.numbers: currencies\<close>

subsection \<open>Claim C10: \<open>is_currency\<close>\<close>

text \<open>
  C10 states that \<open>is_currency\<close> returns a boolean and never raises, for every currency
  string and every locale argument. \<open>is_currency\<close> catches \<open>UnknownCurrencyError\<close> only.
  Where \<open>list_currencies\<close> returns the known codes, \<open>is_currency\<close> returns whether the
  currency is among them, as the claim says. But every other exception that
  \<open>list_currencies\<close> raises leaves \<open>is_currency\<close> as it is: the one that \<open>Locale.parse\<close>
  raises for a locale identifier it cannot resolve, and the \<open>ValueError\<close> of unpacking an
  entry of \<open>territory_currencies\<close> that is no pair.
\<close>

theorem is_currency_lets_other_errors_pass:
  "(list_currencies env loc = Inr known
      \<longrightarrow> is_currency env currency loc = Inr (currency \<in> set known))
   \<and> (list_currencies env loc = Inl e \<and> \<not> is_UnknownCurrencyError e
      \<longrightarrow> is_currency env currency loc = Inl e)"
  by (auto simp: is_currency_def validate_currency_def is_UnknownCurrencyError_def
      split: py_error.splits)

text \<open>
  Witness for C10: without a locale the known currency is recognised, and with an identifier
  on which \<open>Locale.parse\<close> raises \<open>UnknownLocaleError\<close>, \<open>is_currency\<close> raises the same.
\<close>

theorem is_currency_lets_other_errors_pass_witness:
  "is_currency no_locale_env (ustr_of ''USD'') LocaleNone = Inr True
   \<and> is_currency no_locale_env (ustr_of ''USD'') (LocaleStr (ustr_of ''zz''))
       = Inl (UnknownLocaleError (ustr_of ''zz''))"
proof -
  have a: "list_currencies no_locale_env LocaleNone = Inr [ustr_of ''USD'']"
    by (simp add: list_currencies_def no_locale_env_def)
  have b: "list_currencies no_locale_env (LocaleStr (ustr_of ''zz''))
      = Inl (UnknownLocaleError (ustr_of ''zz''))
    \<and> \<not> is_UnknownCurrencyError (UnknownLocaleError (ustr_of ''zz''))"
    by (simp add: list_currencies_def no_locale_env_def is_UnknownCurrencyError_def)
  from is_currency_lets_other_errors_pass
    [of no_locale_env LocaleNone "[ustr_of ''USD'']" "ustr_of ''USD''"] a
  have c: "is_currency no_locale_env (ustr_of ''USD'') LocaleNone = Inr True" by simp
  from is_currency_lets_other_errors_pass
    [of no_locale_env "LocaleStr (ustr_of ''zz'')" _ _ "UnknownLocaleError (ustr_of ''zz'')"] b
  have d: "is_currency no_locale_env (ustr_of ''USD'') (LocaleStr (ustr_of ''zz''))
       = Inl (UnknownLocaleError (ustr_of ''zz''))" by blast
  from c d show ?thesis by simp
qed

end
